theory Spec2Isabelle
  imports Main "HOL-Library.Word"
begin

section \<open>The webhook service (class \<open>WebhookService\<close>)\<close>

subsection \<open>Data\<close>

text \<open>
  A JavaScript object used as a string-keyed dictionary (\<open>Record<string, string>\<close>) is an
  association list in insertion order. Writing a key that is present replaces its value in
  place, writing a new key appends it; keys are compared as they are (case-sensitive).
\<close>

type_synonym headers = "(string \<times> string) list"

fun obj_set :: "('k \<times> 'v) list \<Rightarrow> 'k \<Rightarrow> 'v \<Rightarrow> ('k \<times> 'v) list" where
  "obj_set [] k v = [(k, v)]"
| "obj_set ((k', v') # kvs) k v =
     (if k' = k then (k, v) # kvs else (k', v') # obj_set kvs k v)"

fun obj_get :: "('k \<times> 'v) list \<Rightarrow> 'k \<Rightarrow> 'v option" where
  "obj_get [] k = None"
| "obj_get ((k', v') # kvs) k = (if k' = k then Some v' else obj_get kvs k)"

text \<open>The object spread \<open>{...base, ...extra}\<close>: the entries of \<open>extra\<close> are written in order.\<close>

definition obj_spread :: "('k \<times> 'v) list \<Rightarrow> ('k \<times> 'v) list \<Rightarrow> ('k \<times> 'v) list" where
  "obj_spread base extra = foldl (\<lambda>acc kv. obj_set acc (fst kv) (snd kv)) base extra"

text \<open>\<open>Map.prototype.delete\<close>: the entry is removed; the result says whether it was there.\<close>

definition obj_delete :: "('k \<times> 'v) list \<Rightarrow> 'k \<Rightarrow> bool \<times> ('k \<times> 'v) list" where
  "obj_delete kvs k = (obj_get kvs k \<noteq> None, filter (\<lambda>kv. fst kv \<noteq> k) kvs)"

record WebhookEvent =
  eid :: string
  etype :: string
  timestamp :: string
  data :: string
  source :: string

text \<open>\<open>Omit<WebhookSubscription, 'id'>\<close>, the argument of \<open>subscribe\<close>.\<close>

record SubscriptionInput =
  url :: string
  events :: "string list"
  active :: bool
  secret :: "string option"
  headers :: "headers option"

record WebhookSubscription = SubscriptionInput +
  sid :: string

record Request =
  req_url :: string
  req_method :: string
  req_headers :: headers
  req_body :: string

record Response =
  ok :: bool
  status :: nat
  statusText :: string

text \<open>
  The platform functions the service calls are parameters: \<open>TextEncoder.encode\<close>,
  \<open>crypto.subtle.importKey\<close> and \<open>crypto.subtle.sign\<close> (a rejected promise is \<open>None\<close>),
  \<open>JSON.stringify\<close> on an event, and \<open>fetch\<close> (\<open>None\<close> is a transport error, the
  rejected promise).
\<close>

record 'key Platform =
  encode :: "string \<Rightarrow> 8 word list"
  importKey :: "8 word list \<Rightarrow> 'key option"
  sign :: "'key \<Rightarrow> 8 word list \<Rightarrow> 8 word list option"
  stringify :: "WebhookEvent \<Rightarrow> string"
  fetch :: "Request \<Rightarrow> Response option"

subsection \<open>Signatures\<close>

definition hexDigit :: "nat \<Rightarrow> char" where
  "hexDigit d = ''0123456789abcdef'' ! d"

text \<open>\<open>Number.prototype.toString(16)\<close> on a non-negative integer: no leading zeros.\<close>

function toString16 :: "nat \<Rightarrow> string" where
  "toString16 n = (if n < 16 then [hexDigit n] else toString16 (n div 16) @ [hexDigit (n mod 16)])"
  by pat_completeness auto
termination
  by (relation "measure id") auto

declare toString16.simps [simp del]

text \<open>\<open>String.prototype.padStart(n, c)\<close> with a one-character pad.\<close>

definition padStart :: "nat \<Rightarrow> char \<Rightarrow> string \<Rightarrow> string" where
  "padStart n c s = replicate (n - length s) c @ s"

text \<open>\<open>generateSignature\<close>: \<open>None\<close> when \<open>importKey\<close> or \<open>sign\<close> rejects.\<close>

definition generateSignature :: "'key Platform \<Rightarrow> string \<Rightarrow> string \<Rightarrow> string option" where
  "generateSignature P payload secret' =
     (case importKey P (encode P secret') of
        None \<Rightarrow> None
      | Some key \<Rightarrow>
          (case sign P key (encode P payload) of
             None \<Rightarrow> None
           | Some signature \<Rightarrow>
               (let hashArray = map unat signature;
                    hashHex = concat (map (\<lambda>b. padStart 2 (CHR ''0'') (toString16 b)) hashArray)
                in Some (''sha256='' @ hashHex))))"




subsection \<open>Subscriptions\<close>

record WebhookService =
  subscriptions :: "(string \<times> WebhookSubscription) list"
  eventQueue :: "WebhookEvent list"
  isProcessing :: bool

text \<open>\<open>subscribe\<close>; the fresh \<open>crypto.randomUUID()\<close> is the argument \<open>uuid\<close>.\<close>

definition subscribe ::
  "string \<Rightarrow> SubscriptionInput \<Rightarrow> 'a WebhookService_scheme \<Rightarrow> string \<times> 'a WebhookService_scheme" where
  "subscribe uuid subscription this =
     (let fullSubscription =
            \<lparr>url = url subscription, events = events subscription, active = True,
             secret = secret subscription, headers = headers subscription, sid = uuid\<rparr>
      in (uuid, this\<lparr>subscriptions := obj_set (subscriptions this) uuid fullSubscription\<rparr>))"

definition unsubscribe ::
  "string \<Rightarrow> 'a WebhookService_scheme \<Rightarrow> bool \<times> 'a WebhookService_scheme" where
  "unsubscribe subscriptionId this =
     (let r = obj_delete (subscriptions this) subscriptionId
      in (fst r, this\<lparr>subscriptions := snd r\<rparr>))"

definition getSubscriptions :: "'a WebhookService_scheme \<Rightarrow> WebhookSubscription list" where
  "getSubscriptions this = filter active (map snd (subscriptions this))"

subsection \<open>Delivery\<close>

text \<open>\<open>Number.prototype.toString()\<close> on a non-negative integer, in decimal.\<close>

function toString10 :: "nat \<Rightarrow> string" where
  "toString10 n = (if n < 10 then [hexDigit n] else toString10 (n div 10) @ [hexDigit (n mod 10)])"
  by pat_completeness auto
termination
  by (relation "measure id") auto

declare toString10.simps [simp del]

text \<open>A string is truthy when it is present and not empty.\<close>

definition truthy :: "string option \<Rightarrow> bool" where
  "truthy s = (case s of None \<Rightarrow> False | Some v \<Rightarrow> v \<noteq> [])"

text \<open>The object literal that opens \<open>deliverEvent\<close>: four entries, then the spread.\<close>

definition requiredHeaders :: "WebhookEvent \<Rightarrow> headers" where
  "requiredHeaders event =
     [(''Content-Type'', ''application/json''),
      (''X-Webhook-Event'', etype event),
      (''X-Webhook-ID'', eid event),
      (''X-Webhook-Timestamp'', timestamp event)]"

definition literalHeaders :: "WebhookEvent \<Rightarrow> WebhookSubscription \<Rightarrow> headers" where
  "literalHeaders event subscription =
     obj_spread (requiredHeaders event)
       (case headers subscription of None \<Rightarrow> [] | Some hs \<Rightarrow> hs)"

text \<open>
  The value a subscription's static headers give a name: the spread writes the entries in
  order, so the last entry with that name counts.
\<close>

definition suppliedHeader :: "WebhookSubscription \<Rightarrow> string \<Rightarrow> string option" where
  "suppliedHeader subscription k =
     map_of (rev (case headers subscription of None \<Rightarrow> [] | Some hs \<Rightarrow> hs)) k"

text \<open>
  The \<open>try\<close> block of \<open>deliverEvent\<close>. The first component is the request handed to
  \<open>fetch\<close>, if the block got that far; the second is \<open>Inl\<close> when the block threw (the
  signature could not be computed, or \<open>fetch\<close> rejected) and the response otherwise.
\<close>

definition tryDeliver ::
  "'key Platform \<Rightarrow> WebhookEvent \<Rightarrow> WebhookSubscription \<Rightarrow> Request option \<times> (unit + Response)" where
  "tryDeliver P event subscription =
     (let headers0 = literalHeaders event subscription;
          signed =
            (if truthy (secret subscription)
             then (case generateSignature P (stringify P event) (the (secret subscription)) of
                     None \<Rightarrow> None
                   | Some signature \<Rightarrow> Some (obj_set headers0 ''X-Webhook-Signature'' signature))
             else Some headers0)
      in case signed of
           None \<Rightarrow> (None, Inl ())
         | Some hs \<Rightarrow>
             (let req = \<lparr>req_url = url subscription, req_method = ''POST'',
                         req_headers = hs, req_body = stringify P event\<rparr>
              in case fetch P req of
                   None \<Rightarrow> (Some req, Inl ())
                 | Some response \<Rightarrow> (Some req, Inr response)))"

datatype PromiseState = Fulfilled | Rejected

record Delivery =
  request :: "Request option"
  logged :: "string list"
  settled :: PromiseState

text \<open>\<open>deliverEvent\<close>: the \<open>try\<close> block, its \<open>catch\<close>, and the lines written by \<open>console.error\<close>.\<close>

definition deliverEvent ::
  "'key Platform \<Rightarrow> WebhookEvent \<Rightarrow> WebhookSubscription \<Rightarrow> Delivery" where
  "deliverEvent P event subscription =
     (case tryDeliver P event subscription of
        (req, Inr response) \<Rightarrow>
          \<lparr>request = req,
           logged = (if \<not> ok response
                     then [''Webhook delivery failed for '' @ sid subscription @ '': ''
                             @ toString10 (status response) @ '' '' @ statusText response]
                     else []),
           settled = Fulfilled\<rparr>
      | (req, Inl error) \<Rightarrow>
          \<lparr>request = req,
           logged = [''Webhook delivery error for '' @ sid subscription @ '':''],
           settled = Fulfilled\<rparr>)"

subsection \<open>The queue and its drain\<close>

datatype WebhookEventType =
    ProjectCreated | ProjectUpdated | IdeationCompleted | PlanGenerated | CodeGenerated
  | CodeUpdated | TestPassed | TestFailed | BuildStarted | BuildCompleted | BuildFailed
  | DeploymentStarted | DeploymentCompleted | DeploymentFailed | ErrorOccurred

fun typeName :: "WebhookEventType \<Rightarrow> string" where
  "typeName ProjectCreated = ''project.created''"
| "typeName ProjectUpdated = ''project.updated''"
| "typeName IdeationCompleted = ''ideation.completed''"
| "typeName PlanGenerated = ''plan.generated''"
| "typeName CodeGenerated = ''code.generated''"
| "typeName CodeUpdated = ''code.updated''"
| "typeName TestPassed = ''test.passed''"
| "typeName TestFailed = ''test.failed''"
| "typeName BuildStarted = ''build.started''"
| "typeName BuildCompleted = ''build.completed''"
| "typeName BuildFailed = ''build.failed''"
| "typeName DeploymentStarted = ''deployment.started''"
| "typeName DeploymentCompleted = ''deployment.completed''"
| "typeName DeploymentFailed = ''deployment.failed''"
| "typeName ErrorOccurred = ''error.occurred''"

text \<open>
  \<open>processQueue\<close> is an \<open>async\<close> function: a call runs until its \<open>await
  Promise.allSettled(...)\<close>, where it is suspended, and goes on from there when the
  deliveries of the current event have settled. Code of other callers (\<open>emit\<close>,
  \<open>subscribe\<close>, \<open>unsubscribe\<close>) runs only while every call of \<open>processQueue\<close> is
  suspended. The state of the service is therefore the three fields of the class, the calls
  of \<open>processQueue\<close> that are suspended (each with the event it took and the subscriptions it
  is delivering to), and a history of what has happened: the events pushed by \<open>emit\<close>, the
  loop iterations started and finished, the requests handed to \<open>fetch\<close> and the lines
  written to the console.
\<close>

type_synonym round = "WebhookEvent \<times> WebhookSubscription list"

record Bus = WebhookService +
  drains :: "round list"
  emitted :: "WebhookEvent list"
  started :: "round list"
  finished :: "round list"
  fetched :: "Request list"
  console :: "string list"

definition relevantSubscriptions :: "'a WebhookService_scheme \<Rightarrow> WebhookEvent \<Rightarrow> WebhookSubscription list" where
  "relevantSubscriptions this event =
     filter (\<lambda>sub. active sub \<and> etype event \<in> set (events sub)) (map snd (subscriptions this))"

text \<open>
  The \<open>while\<close> loop of \<open>processQueue\<close> from its test to the next suspension: either the queue
  is empty and the call ends after clearing \<open>isProcessing\<close>, or the oldest event is shifted
  out, \<open>deliverEvent\<close> is called on every relevant subscription, and the call is suspended.
  The requests of a round are recorded when its deliveries are started, its console lines
  when they settle.
\<close>

definition loopHead :: "'key Platform \<Rightarrow> Bus \<Rightarrow> Bus" where
  "loopHead P this =
     (case eventQueue this of
        [] \<Rightarrow> this\<lparr>isProcessing := False\<rparr>
      | event # rest \<Rightarrow>
          (let targets = relevantSubscriptions this event
           in this\<lparr>eventQueue := rest,
                   drains := drains this @ [(event, targets)],
                   started := started this @ [(event, targets)],
                   fetched := fetched this
                     @ List.map_filter (\<lambda>sub. request (deliverEvent P event sub)) targets\<rparr>))"

definition processQueue :: "'key Platform \<Rightarrow> Bus \<Rightarrow> Bus" where
  "processQueue P this = loopHead P (this\<lparr>isProcessing := True\<rparr>)"

text \<open>
  \<open>emit\<close>; \<open>uuid\<close> and \<open>now\<close> are the values of \<open>crypto.randomUUID()\<close> and
  \<open>new Date().toISOString()\<close>, and an absent \<open>source\<close> is \<open>sdlc-agent\<close>.
\<close>

definition emit ::
  "'key Platform \<Rightarrow> string \<Rightarrow> string \<Rightarrow> WebhookEventType \<Rightarrow> string \<Rightarrow> string option \<Rightarrow> Bus \<Rightarrow> Bus" where
  "emit P uuid now eventType data' source' this =
     (let event = \<lparr>eid = uuid, etype = typeName eventType, timestamp = now, data = data',
                   source = (case source' of None \<Rightarrow> ''sdlc-agent'' | Some s \<Rightarrow> s)\<rparr>;
          this1 = this\<lparr>eventQueue := eventQueue this @ [event], emitted := emitted this @ [event]\<rparr>
      in if \<not> isProcessing this1 then processQueue P this1 else this1)"

text \<open>
  The deliveries of the \<open>i\<close>-th suspended call settle: their console lines are written and
  the call goes round its loop again.
\<close>

definition settle :: "'key Platform \<Rightarrow> nat \<Rightarrow> Bus \<Rightarrow> Bus" where
  "settle P i this =
     (if i < length (drains this)
      then (let r = drains this ! i;
                results = map (deliverEvent P (fst r)) (snd r)
            in loopHead P
                 (this\<lparr>drains := take i (drains this) @ drop (Suc i) (drains this),
                       finished := finished this @ [r],
                       console := console this @ concat (map logged results)\<rparr>))
      else this)"

text \<open>\<open>getEventHistory(limit)\<close>, that is \<open>this.eventQueue.slice(-limit)\<close>.\<close>

definition slice_from :: "int \<Rightarrow> 'a list \<Rightarrow> 'a list" where
  "slice_from start xs =
     (let n = int (length xs);
          k = (if start < 0 then max (n + start) 0 else min start n)
      in drop (nat k) xs)"

definition getEventHistory :: "int \<Rightarrow> 'a WebhookService_scheme \<Rightarrow> WebhookEvent list" where
  "getEventHistory limit this = slice_from (- limit) (eventQueue this)"

text \<open>\<open>new WebhookService()\<close>, with an empty history.\<close>

definition newWebhookService :: Bus where
  "newWebhookService =
     \<lparr>subscriptions = [], eventQueue = [], isProcessing = False,
      drains = [], emitted = [], started = [], finished = [], fetched = [], console = []\<rparr>"

text \<open>What the callers of the service can do, and a run of such calls.\<close>

datatype Op =
    Emit string string WebhookEventType string "string option"
  | Settle nat
  | Subscribe string SubscriptionInput
  | Unsubscribe string

fun apply_op :: "'key Platform \<Rightarrow> Bus \<Rightarrow> Op \<Rightarrow> Bus" where
  "apply_op P this (Emit uuid now eventType data' source') = emit P uuid now eventType data' source' this"
| "apply_op P this (Settle i) = settle P i this"
| "apply_op P this (Subscribe uuid subscription) = snd (subscribe uuid subscription this)"
| "apply_op P this (Unsubscribe subscriptionId) = snd (unsubscribe subscriptionId this)"

definition run :: "'key Platform \<Rightarrow> Op list \<Rightarrow> Bus \<Rightarrow> Bus" where
  "run P ops this = foldl (apply_op P) this ops"



text \<open>
  What holds of the service between any two calls: the events taken by the drain, followed
  by those still queued, are the events emitted, in order; at most one call of
  \<open>processQueue\<close> is suspended, and \<open>isProcessing\<close> says whether one is; every round
  started but the one in flight has finished; an idle service has an empty queue; and every
  round delivers only to active subscriptions that list the event's type.
\<close>

definition bus_inv :: "Bus \<Rightarrow> bool" where
  "bus_inv s =
     (map fst (started s) @ eventQueue s = emitted s
      \<and> length (drains s) \<le> 1
      \<and> isProcessing s = (drains s \<noteq> [])
      \<and> finished s @ drains s = started s
      \<and> (drains s = [] \<longrightarrow> eventQueue s = [])
      \<and> list_all (\<lambda>r. list_all (\<lambda>sub. active sub \<and> etype (fst r) \<in> set (events sub)) (snd r)) (started s))"




section \<open>The project orchestrator (hook \<open>useProjectOrchestrator\<close>)\<close>

subsection \<open>Data\<close>

datatype FileType = File | Directory

datatype FileStatus = Planned | Generating | Generated | Modified | Error

datatype TestStatus = Untested | Passing | Failing

text \<open>\<open>ProjectFile\<close>; absent \<open>children\<close> are the empty list.\<close>

datatype ProjectFile =
  ProjectFile (fpath: string) (ftype: FileType) (children: "ProjectFile list")
    (fcode: "string option") (fstatus: FileStatus) (testStatus: TestStatus)
    (testError: "string option")

text \<open>\<open>AppPlan\<close>, without \<open>techStack\<close>, which no handler reads.\<close>

record AppPlan =
  projectName :: string
  description :: string
  fileStructure :: "ProjectFile list"

datatype AgentName =
    Orchestrator | MarketAnalyst | ProductStrategist | FrontendExpert | BackendExpert
  | DBArchitect | QAEngineer | Debugger | SeniorArchitect | DevOpsEngineer | SecurityAnalyst
  | SoftwareArchitect | FullStackDeveloper | UIUXExpert

datatype AgentStatus =
    Idle | Thinking | Researching | Planning | Coding | Testing | Debugging | Refactoring
  | Deploying | Auditing | Ingesting

datatype ChatRole = User | Assistant | System

text \<open>The \<open>status\<close> of a terminal entry; \<open>Failure\<close> stands for \<open>'error'\<close>.\<close>

datatype EntryStatus = Info | Success | Failure | Warning

text \<open>
  The actions the handlers dispatch. A chat message is dispatched with a fresh id and the
  current time, which are left out.
\<close>

datatype Action =
    ADD_CHAT_MESSAGE ChatRole string
  | ADD_TERMINAL_ENTRY AgentName string EntryStatus
  | UPDATE_AGENT_STATUS AgentName AgentStatus
  | SET_ERROR "string option"
  | SET_LOADING bool "string option"
  | SET_FILE_STATUS string FileStatus
  | UPDATE_FILE_CODE string string
  | UPDATE_FILE_TEST_STATUS string TestStatus "string option"
  | ADD_FILE string
  | SET_BUILD_STATUS bool
  | CLEAR_TERMINAL

record PlanModificationRequest =
  action :: string
  rpath :: string
  reason :: string

text \<open>
  The collaborators (\<open>geminiService\<close>, \<open>knowledgeBaseService\<close>) are parameters. Their
  answers may change from call to call, so each takes and returns a state \<open>'w\<close> of the
  world outside the hook. \<open>debugCode\<close> answers \<open>None\<close> when its promise rejects or carries no
  string; \<open>generateCodeForFile\<close> answers \<open>Inl\<close> when its promise rejects, with the message of
  the \<open>Error\<close> thrown if it is one.
\<close>

record 'w Collaborators =
  generateTestError :: "string \<Rightarrow> 'w \<Rightarrow> (bool \<times> string option) \<times> 'w"
  debugCode :: "string \<Rightarrow> string \<Rightarrow> 'w \<Rightarrow> string option \<times> 'w"
  generateCodeForFile ::
    "ProjectFile \<Rightarrow> AppPlan \<Rightarrow> string list \<Rightarrow> ProjectFile list \<Rightarrow> 'w
       \<Rightarrow> (string option + string \<times> PlanModificationRequest option) \<times> 'w"
  getRelevantKnowledge :: "string \<Rightarrow> 'w \<Rightarrow> string list"
  learnFromSuccess :: "string \<Rightarrow> string \<Rightarrow> 'w \<Rightarrow> 'w"

subsection \<open>The file tree\<close>

text \<open>
  Modelled from the spec: \<open>flattenFileTree\<close> of \<open>utils/fileTree.ts\<close>, which is not among
  the sources. The specification's \<open>flatten()\<close> is the pre-order sequence of every node,
  directories before their children and siblings in tree order.
\<close>

fun flattenFile :: "ProjectFile \<Rightarrow> ProjectFile list" where
  "flattenFile (ProjectFile p t cs c st ts te) =
     ProjectFile p t cs c st ts te # concat (map flattenFile cs)"

definition flattenFileTree :: "ProjectFile list \<Rightarrow> ProjectFile list" where
  "flattenFileTree files = concat (map flattenFile files)"

text \<open>
  Modelled from the spec: \<open>findFileByPath\<close> of \<open>utils/fileTree.ts\<close>, which is not among
  the sources. The specification's \<open>findByPath(path)\<close> returns the node with that path or
  a not-found signal; here the first such node in pre-order.
\<close>

definition findFileByPath :: "ProjectFile list \<Rightarrow> string \<Rightarrow> ProjectFile option" where
  "findFileByPath files p = find (\<lambda>f. fpath f = p) (flattenFileTree files)"

subsection \<open>Strings\<close>

definition startsWith :: "string \<Rightarrow> string \<Rightarrow> bool" where
  "startsWith s p = (take (length p) s = p)"

definition endsWith :: "string \<Rightarrow> string \<Rightarrow> bool" where
  "endsWith s p = startsWith (rev s) (rev p)"

fun includesStr :: "string \<Rightarrow> string \<Rightarrow> bool" where
  "includesStr [] p = (p = [])"
| "includesStr (c # cs) p = (startsWith (c # cs) p \<or> includesStr cs p)"

text \<open>An optional string inside a template literal.\<close>

definition template :: "string option \<Rightarrow> string" where
  "template v = (case v of None \<Rightarrow> ''undefined'' | Some t \<Rightarrow> t)"

subsection \<open>The handlers\<close>

text \<open>
  One call of the hook destructures \<open>projectPlan\<close> from the state it is given and makes the
  object \<open>isBuildingRef\<close>; the handlers it returns close over both. \<open>dispatch\<close> hands an
  action to the reducer, which computes the state of the next call of the hook; it changes
  nothing the handlers of this call hold. A handler therefore takes the \<open>projectPlan\<close> of
  its hook call as an argument, and what it changes is: the flag in \<open>isBuildingRef\<close>, the
  actions dispatched so far, the world of the collaborators, and the webhook service, a
  module-level object any module can reach through \<open>emitWebhookEvent\<close>. The flag is read
  by \<open>handleGenerateCode\<close> alone, and only to decide what is narrated.
\<close>

record 'w Run =
  isBuildingRef :: bool
  dispatched :: "Action list"
  world :: 'w
  bus :: Bus

definition dispatch :: "Action \<Rightarrow> 'w Run \<Rightarrow> 'w Run" where
  "dispatch a s = s\<lparr>dispatched := dispatched s @ [a]\<rparr>"

definition addMessage :: "ChatRole \<Rightarrow> string \<Rightarrow> 'w Run \<Rightarrow> 'w Run" where
  "addMessage role content = dispatch (ADD_CHAT_MESSAGE role content)"

definition addTerminalEntry :: "AgentName \<Rightarrow> string \<Rightarrow> EntryStatus \<Rightarrow> 'w Run \<Rightarrow> 'w Run" where
  "addTerminalEntry agent message status' = dispatch (ADD_TERMINAL_ENTRY agent message status')"

definition updateAgentStatus :: "AgentName \<Rightarrow> AgentStatus \<Rightarrow> 'w Run \<Rightarrow> 'w Run" where
  "updateAgentStatus agentName status' = dispatch (UPDATE_AGENT_STATUS agentName status')"

definition handleDebugCode ::
  "'w Collaborators \<Rightarrow> AppPlan option \<Rightarrow> string \<Rightarrow> 'w Run \<Rightarrow> bool \<times> 'w Run" where
  "handleDebugCode C projectPlan filePath s =
     (case projectPlan of
        None \<Rightarrow> (False, s)
      | Some plan \<Rightarrow>
          (case findFileByPath (fileStructure plan) filePath of
             None \<Rightarrow> (False, s)
           | Some fileToDebug \<Rightarrow>
               if \<not> truthy (fcode fileToDebug) \<or> \<not> truthy (testError fileToDebug) then (False, s)
               else
                 (let s1 = updateAgentStatus Debugger Debugging s;
                      s2 = addTerminalEntry Debugger
                             (''Attempting to fix bug in '' @ filePath @ ''...'') Info s1;
                      r = debugCode C (the (fcode fileToDebug)) (the (testError fileToDebug)) (world s2);
                      fixedCode = fst r;
                      s3 = s2\<lparr>world := snd r\<rparr>
                  in if truthy fixedCode
                     then (let s4 = dispatch (UPDATE_FILE_CODE filePath (the fixedCode)) s3;
                               s5 = addTerminalEntry Debugger
                                      (''Successfully applied a fix to '' @ filePath
                                         @ ''. Re-running tests...'') Success s4
                           in (True, updateAgentStatus Debugger Idle s5))
                     else (let s4 = addTerminalEntry Debugger
                                      (''Failed to fix the bug in '' @ filePath @ ''.'') Failure s3
                           in (False, updateAgentStatus Debugger Idle s4)))))"

text \<open>
  \<open>handleRunTests\<close> calls itself after every fix and may never return: it is a partial
  function, \<open>None\<close> when it does not return.
\<close>

partial_function (option) handleRunTests ::
  "'w Collaborators \<Rightarrow> AppPlan option \<Rightarrow> string \<Rightarrow> 'w Run \<Rightarrow> (bool \<times> 'w Run) option" where
  "handleRunTests C projectPlan filePath s =
     (case projectPlan of
        None \<Rightarrow> Some (False, s)
      | Some plan \<Rightarrow>
          (case findFileByPath (fileStructure plan) filePath of
             None \<Rightarrow> Some (False, s)
           | Some fileToTest \<Rightarrow>
               if \<not> truthy (fcode fileToTest) then Some (False, s)
               else
                 (let s1 = updateAgentStatus QAEngineer Testing s;
                      s2 = addTerminalEntry QAEngineer (''Running tests on '' @ filePath @ ''...'') Info s1;
                      r = generateTestError C (the (fcode fileToTest)) (world s2);
                      isSuccess = fst (fst r);
                      errorMessage = snd (fst r);
                      s3 = s2\<lparr>world := snd r\<rparr>
                  in if isSuccess
                     then (let s4 = dispatch (UPDATE_FILE_TEST_STATUS filePath Passing None) s3;
                               s5 = addTerminalEntry QAEngineer
                                      (''Tests PASSED for '' @ filePath) Success s4;
                               s6 = updateAgentStatus QAEngineer Idle s5
                           in Some (True, s6\<lparr>world := learnFromSuccess C filePath
                                                        (the (fcode fileToTest)) (world s6)\<rparr>))
                     else (let s4 = addTerminalEntry QAEngineer
                                      (''Tests FAILED for '' @ filePath @ '': ''
                                         @ template errorMessage) Failure s3;
                               s5 = dispatch (UPDATE_FILE_TEST_STATUS filePath Failing errorMessage) s4;
                               s6 = updateAgentStatus QAEngineer Idle s5;
                               s7 = addMessage System
                                      (''Tests failed for `'' @ filePath
                                         @ ''`. Handing off to Debugger agent for self-healing.'') s6;
                               d = handleDebugCode C projectPlan filePath s7
                           in if fst d
                              then handleRunTests C projectPlan filePath (snd d)
                              else Some (False, addMessage Assistant
                                     (''I tried to fix `'' @ filePath
                                        @ ''` but couldn't resolve the issue. You may need to manually edit the code or ask me for specific changes.'')
                                     (snd d))))))"

declare handleRunTests.simps [code]

definition coderNameFor :: "ProjectFile \<Rightarrow> AgentName" where
  "coderNameFor fileToGenerate =
     (if includesStr (fpath fileToGenerate) ''src/components''
         \<or> endsWith (fpath fileToGenerate) ''.css''
         \<or> endsWith (fpath fileToGenerate) ''tailwind.config.js''
      then FrontendExpert else BackendExpert)"

text \<open>The \<open>finally\<close> block of \<open>handleGenerateCode\<close>.\<close>

definition generateFinally :: "AgentName \<Rightarrow> 'w Run \<Rightarrow> 'w Run" where
  "generateFinally coderName s =
     (let s1 = updateAgentStatus coderName Idle s
      in if \<not> isBuildingRef s1 then dispatch (SET_LOADING False None) s1 else s1)"

text \<open>
  \<open>handleGenerateCode\<close> in four blocks: what runs before the generation collaborator is
  awaited, the rest of the \<open>try\<close> block, the \<open>catch\<close> block, and the whole.
\<close>

definition generateBefore :: "AgentName \<Rightarrow> string \<Rightarrow> 'w Run \<Rightarrow> 'w Run" where
  "generateBefore coderName filePath s =
     (let s1 = dispatch (SET_ERROR None) s;
          s2 = updateAgentStatus coderName Coding s1;
          s3 = (if \<not> isBuildingRef s2
                then dispatch (SET_LOADING True
                       (Some (''AI is writing code for '' @ filePath @ ''...'')))
                      (addMessage Assistant
                         (''On it! Generating code for `'' @ filePath @ ''`...'')
                         (addMessage System
                            (''(Consulting knowledge base for patterns related to `''
                               @ filePath @ ''`...)'') s2))
                else s2);
          s4 = addTerminalEntry coderName (''Generating code for '' @ filePath @ ''...'') Info s3
      in dispatch (SET_FILE_STATUS filePath Generating) s4)"

definition generateAfter ::
  "AgentName \<Rightarrow> string \<Rightarrow> string \<Rightarrow> PlanModificationRequest option \<Rightarrow> 'w Run \<Rightarrow> 'w Run" where
  "generateAfter coderName filePath code planModificationRequest s =
     (let s1 = (case planModificationRequest of
                  None \<Rightarrow> s
                | Some req \<Rightarrow>
                    if action req = ''createFile''
                    then dispatch (ADD_FILE (rpath req))
                           (addMessage Assistant
                              (''(Adaptive Planning) I realized I need a new file: ''
                                 @ reason req @ ''. I've added `'' @ rpath req
                                 @ ''` to the file tree.'') s)
                    else s);
          s2 = dispatch (UPDATE_FILE_CODE filePath code) s1;
          s3 = addTerminalEntry coderName
                 (''Code generation complete for '' @ filePath @ ''.'') Success s2
      in if \<not> isBuildingRef s3
         then addMessage Assistant
                (''I've finished writing the code for `'' @ filePath
                   @ ''`. You can review it in the editor.'') s3
         else s3)"

definition generateCatch :: "AgentName \<Rightarrow> string \<Rightarrow> string option \<Rightarrow> 'w Run \<Rightarrow> 'w Run" where
  "generateCatch coderName filePath err s =
     (let errorMessage = (case err of None \<Rightarrow> ''An unknown error occurred.'' | Some m \<Rightarrow> m);
          s1 = dispatch (SET_ERROR (Some (''Failed to generate code for '' @ filePath @ ''.''))) s;
          s2 = dispatch (SET_FILE_STATUS filePath Error) s1;
          s3 = addTerminalEntry coderName
                 (''Code generation failed for '' @ filePath @ ''.'') Failure s2
      in if \<not> isBuildingRef s3
         then addMessage Assistant
                (''Sorry, I hit a snag while generating code for `'' @ filePath @ ''`: ''
                   @ errorMessage) s3
         else s3)"

definition handleGenerateCode ::
  "'w Collaborators \<Rightarrow> AppPlan option \<Rightarrow> string \<Rightarrow> 'w Run \<Rightarrow> bool \<times> 'w Run" where
  "handleGenerateCode C projectPlan filePath s =
     (case projectPlan of
        None \<Rightarrow> (False, s)
      | Some plan \<Rightarrow>
          (case findFileByPath (fileStructure plan) filePath of
             None \<Rightarrow> (False, s)
           | Some fileToGenerate \<Rightarrow>
               if ftype fileToGenerate = Directory then (False, s)
               else
                 (let coderName = coderNameFor fileToGenerate;
                      s1 = generateBefore coderName filePath s;
                      allFiles = flattenFileTree (fileStructure plan);
                      knowledge = getRelevantKnowledge C filePath (world s1);
                      r = generateCodeForFile C fileToGenerate plan knowledge allFiles (world s1);
                      s2 = s1\<lparr>world := snd r\<rparr>
                  in case fst r of
                       Inr (code, planModificationRequest) \<Rightarrow>
                         (True, generateFinally coderName
                                  (generateAfter coderName filePath code planModificationRequest s2))
                     | Inl err \<Rightarrow>
                         (False, generateFinally coderName
                                   (generateCatch coderName filePath err s2)))))"

text \<open>The work list of \<open>handleBuildProject\<close>, computed once before its loop.\<close>

definition filesToBuild :: "AppPlan \<Rightarrow> ProjectFile list" where
  "filesToBuild plan =
     filter (\<lambda>f. ftype f = File \<and> fstatus f \<noteq> Generated) (flattenFileTree (fileStructure plan))"

text \<open>The \<open>for\<close> loop of \<open>handleBuildProject\<close>; the two \<open>break\<close>s end it.\<close>

fun buildLoop ::
  "'w Collaborators \<Rightarrow> AppPlan option \<Rightarrow> ProjectFile list \<Rightarrow> 'w Run \<Rightarrow> 'w Run option" where
  "buildLoop C projectPlan [] s = Some s"
| "buildLoop C projectPlan (file # files) s =
     (let s1 = addTerminalEntry Orchestrator
                 (''--- Starting work on '' @ fpath file @ '' ---'') Info s;
          g = handleGenerateCode C projectPlan (fpath file) s1
      in if \<not> fst g
         then Some (addTerminalEntry Orchestrator
                      (''Build HALTED due to error in '' @ fpath file @ ''.'') Failure
                      (addMessage System
                         (''Build failed on '' @ fpath file @ ''. Halting process.'') (snd g)))
         else (case handleRunTests C projectPlan (fpath file) (snd g) of
                 None \<Rightarrow> None
               | Some t \<Rightarrow>
                   if \<not> fst t
                   then Some (addTerminalEntry Orchestrator
                                (''Build HALTED due to unresolvable test failure in ''
                                   @ fpath file @ ''.'') Failure
                                (addMessage System
                                   (''Tests failed for '' @ fpath file
                                      @ '' and could not be self-healed. Halting build.'') (snd t)))
                   else buildLoop C projectPlan files (snd t)))"

definition handleBuildProject ::
  "'w Collaborators \<Rightarrow> AppPlan option \<Rightarrow> 'w Run \<Rightarrow> 'w Run option" where
  "handleBuildProject C projectPlan s =
     (case projectPlan of
        None \<Rightarrow> Some s
      | Some plan \<Rightarrow>
          (let s1 = s\<lparr>isBuildingRef := True\<rparr>;
               s2 = dispatch (SET_BUILD_STATUS True) s1;
               s3 = addMessage System ''Starting full project build...'' s2;
               s4 = dispatch CLEAR_TERMINAL s3
           in case buildLoop C projectPlan (filesToBuild plan) s4 of
                None \<Rightarrow> None
              | Some s5 \<Rightarrow>
                  (let s6 = addMessage System ''Full project build process finished.'' s5;
                       s7 = s6\<lparr>isBuildingRef := False\<rparr>
                   in Some (dispatch (SET_BUILD_STATUS False) s7))))"

text \<open>The paths on which the generation collaborator was started, in order.\<close>

fun generatingPath :: "Action \<Rightarrow> string option" where
  "generatingPath (SET_FILE_STATUS p Generating) = Some p"
| "generatingPath a = None"

definition attempted :: "'w Run \<Rightarrow> string list" where
  "attempted s = List.map_filter generatingPath (dispatched s)"

text \<open>The paths handed to the adaptive planner (\<open>ADD_FILE\<close>), in order.\<close>

fun addedPath :: "Action \<Rightarrow> string option" where
  "addedPath (ADD_FILE p) = Some p"
| "addedPath a = None"

definition requested :: "'w Run \<Rightarrow> string list" where
  "requested s = List.map_filter addedPath (dispatched s)"

text \<open>
  The types of the events emitted to the webhook service. No handler of the hook calls
  \<open>emitWebhookEvent\<close> (the module does not import the service), so none changes \<open>bus\<close>.
\<close>

definition webhookEvents :: "'w Run \<Rightarrow> string list" where
  "webhookEvents s = map etype (emitted (bus s))"

section \<open>Concrete inputs\<close>

text \<open>
  A small platform: keys are their bytes (the empty key is refused), the MAC of a message
  is the key followed by the message, and \<open>fetch\<close> answers by the host.
\<close>

definition demoPlatform :: "8 word list Platform" where
  "demoPlatform =
     \<lparr>encode = map (\<lambda>c. of_nat (of_char c)),
      importKey = (\<lambda>k. if k = [] then None else Some k),
      sign = (\<lambda>k m. Some (k @ m)),
      stringify = (\<lambda>e. eid e @ '':'' @ etype e),
      fetch = (\<lambda>r. if req_url r = ''http://down'' then None
                    else Some \<lparr>ok = (req_url r = ''http://ok''), status = 500,
                               statusText = ''Internal''\<rparr>)\<rparr>"

definition event0 :: WebhookEvent where
  "event0 = \<lparr>eid = ''e-1'', etype = ''test.failed'', timestamp = ''2024-01-01T00:00:00.000Z'',
             data = ''{}'', source = ''sdlc-agent''\<rparr>"

definition spoofSub :: WebhookSubscription where
  "spoofSub = \<lparr>url = ''http://ok'', events = [''test.failed''], active = True, secret = None,
               headers = Some [(''X-Webhook-Event'', ''build.completed''), (''X-Extra'', ''1'')],
               sid = ''s-1''\<rparr>"

definition activeSub :: WebhookSubscription where
  "activeSub = \<lparr>url = ''http://failing'', events = [''test.failed'', ''build.started''], active = True,
                secret = Some ''k'', headers = None, sid = ''s-2''\<rparr>"

definition inactiveSub :: WebhookSubscription where
  "inactiveSub = \<lparr>url = ''http://ok'', events = [''test.failed''], active = False,
                secret = None, headers = None, sid = ''s-3''\<rparr>"

definition busyOps :: "Op list" where
  "busyOps = [Emit ''e-1'' ''t1'' TestFailed ''{}'' None, Emit ''e-2'' ''t2'' BuildStarted ''{}'' None]"

definition busySubs :: "(string \<times> WebhookSubscription) list" where
  "busySubs = [(''s-2'', activeSub), (''s-3'', inactiveSub)]"

definition busyBus :: Bus where
  "busyBus = run demoPlatform busyOps (newWebhookService\<lparr>subscriptions := busySubs\<rparr>)"

text \<open>
  Collaborators whose world is the list of paths the generator was called for: tests fail
  or pass as \<open>pass\<close> says, the debugger answers \<open>fix\<close>, and the generator fails on
  \<open>bad.ts\<close> and asks for the new file \<open>src/b.ts\<close> while writing \<open>src/a.ts\<close>.
\<close>

definition scripted :: "bool \<Rightarrow> string option \<Rightarrow> string list Collaborators" where
  "scripted pass fix =
     \<lparr>generateTestError = (\<lambda>code w. ((pass, if pass then None else Some ''assertion failed''), w)),
      debugCode = (\<lambda>code err w. (fix, w)),
      generateCodeForFile = (\<lambda>f plan knowledge allFiles w.
         (if fpath f = ''bad.ts'' then Inl (Some ''quota exceeded'')
          else Inr (''generated'',
                 if fpath f = ''src/a.ts''
                 then Some \<lparr>action = ''createFile'', rpath = ''src/b.ts'', reason = ''a helper''\<rparr>
                 else None),
          w @ [fpath f])),
      getRelevantKnowledge = (\<lambda>p w. []),
      learnFromSuccess = (\<lambda>p code w. w)\<rparr>"

definition fileA :: ProjectFile where
  "fileA = ProjectFile ''src/a.ts'' File [] (Some ''draft'') Modified Failing (Some ''assertion failed'')"

definition planA :: AppPlan where
  "planA = \<lparr>projectName = ''demo'', description = ''demo'',
            fileStructure = [ProjectFile ''src'' Directory [fileA] None Planned Untested None]\<rparr>"

definition fileBad :: ProjectFile where
  "fileBad = ProjectFile ''bad.ts'' File [] None Planned Untested None"

definition fileC :: ProjectFile where
  "fileC = ProjectFile ''c.ts'' File [] None Planned Untested None"

definition planBad :: AppPlan where
  "planBad = \<lparr>projectName = ''demo'', description = ''demo'', fileStructure = [fileBad, fileC]\<rparr>"

definition idleRun :: "string list Run" where
  "idleRun = \<lparr>isBuildingRef = False, dispatched = [], world = [], bus = newWebhookService\<rparr>"

definition buildingRun :: "string list Run" where
  "buildingRun = \<lparr>isBuildingRef = True, dispatched = [SET_BUILD_STATUS True], world = [],
                   bus = newWebhookService\<rparr>"

section \<open>Properties of the webhook service\<close>

lemma obj_get_obj_set: "obj_get (obj_set kvs k v) k' = (if k' = k then Some v else obj_get kvs k')"
  by (induction kvs) auto





text \<open>
  C10. \<open>subscribe\<close> stores the subscription with \<open>active\<close> true whatever the caller passed,
  keeps the caller's other fields, and returns the id under which it is stored.
\<close>

theorem C10_subscribe_active:
  "obj_get (subscriptions (snd (subscribe uuid subscription this))) (fst (subscribe uuid subscription this))
     = Some \<lparr>url = url subscription, events = events subscription, active = True,
             secret = secret subscription, headers = headers subscription, sid = uuid\<rparr>
   \<and> fst (subscribe uuid subscription this) = uuid"
  by (simp add: subscribe_def obj_get_obj_set)

lemma obj_get_obj_spread:
  "obj_get (obj_spread base extra) k =
     (case map_of (rev extra) k of Some v \<Rightarrow> Some v | None \<Rightarrow> obj_get base k)"
  by (induction extra rule: rev_induct) (auto simp: obj_spread_def obj_get_obj_set)

lemma request_headers:
  assumes "request (deliverEvent P event subscription) = Some r"
  shows "req_headers r = literalHeaders event subscription
       \<or> (\<exists>sig. req_headers r = obj_set (literalHeaders event subscription) ''X-Webhook-Signature'' sig)"
  using assms
  by (auto simp: deliverEvent_def tryDeliver_def Let_def
      split: option.splits if_splits prod.splits sum.splits)

text \<open>
  C9 (as the code has it). Every request handed to \<open>fetch\<close> carries the four required
  header names. Each has its event-derived value unless the subscription's static headers
  give the same name, in which case the subscriber's value stands in its place: static
  headers add and replace entries, they never remove one.
\<close>

theorem C9_required_headers:
  assumes "request (deliverEvent P event subscription) = Some r"
    and "(k, v) \<in> set (requiredHeaders event)"
  shows "obj_get (req_headers r) k =
           Some (case suppliedHeader subscription k of None \<Rightarrow> v | Some v' \<Rightarrow> v')"
proof -
  have k: "k \<noteq> ''X-Webhook-Signature''"
    using assms(2) by (auto simp: requiredHeaders_def)
  have "obj_get (req_headers r) k = obj_get (literalHeaders event subscription) k"
    using request_headers [OF assms(1)] k by (auto simp: obj_get_obj_set)
  also have "\<dots> = Some (case suppliedHeader subscription k of None \<Rightarrow> v | Some v' \<Rightarrow> v')"
    using assms(2)
    by (auto simp: literalHeaders_def obj_get_obj_spread suppliedHeader_def requiredHeaders_def
        split: option.splits)
  finally show ?thesis .
qed

theorem C9_required_headers_witness:
  "obj_get (req_headers (the (request (deliverEvent demoPlatform event0 spoofSub)))) ''X-Webhook-ID''
     = Some ''e-1''
   \<and> obj_get (req_headers (the (request (deliverEvent demoPlatform event0 spoofSub)))) ''X-Webhook-Event''
     = Some ''build.completed''"
proof -
  have r: "request (deliverEvent demoPlatform event0 spoofSub)
             = Some (the (request (deliverEvent demoPlatform event0 spoofSub)))"
    by (simp add: deliverEvent_def tryDeliver_def literalHeaders_def requiredHeaders_def
        obj_spread_def truthy_def demoPlatform_def event0_def spoofSub_def)
  have 1: "(''X-Webhook-ID'', ''e-1'') \<in> set (requiredHeaders event0)"
    by (simp add: requiredHeaders_def event0_def)
  have 2: "(''X-Webhook-Event'', ''test.failed'') \<in> set (requiredHeaders event0)"
    by (simp add: requiredHeaders_def event0_def)
  show ?thesis
    using C9_required_headers [OF r 1] C9_required_headers [OF r 2]
    by (simp add: suppliedHeader_def spoofSub_def)
qed

text \<open>
  C9 as claimed fails: a subscription whose static headers name \<open>X-Webhook-Event\<close> gets a
  request whose \<open>X-Webhook-Event\<close> header is the subscriber's text, not the event's type.
\<close>

theorem C9_replaced_header_counterexample:
  "request (deliverEvent demoPlatform event0 spoofSub) \<noteq> None
   \<and> obj_get (req_headers (the (request (deliverEvent demoPlatform event0 spoofSub)))) ''X-Webhook-Event''
       = Some ''build.completed''
   \<and> etype event0 = ''test.failed''"
  by (simp add: deliverEvent_def tryDeliver_def literalHeaders_def requiredHeaders_def
      obj_spread_def truthy_def demoPlatform_def event0_def spoofSub_def)

text \<open>
  C5 (the code at the failing input). On a new service, with no subscription at all, the
  event pushed by \<open>emit\<close> has left the queue when \<open>emit\<close> returns, and the queue is all
  \<open>getEventHistory\<close> reads: the history is empty although an event was emitted.
\<close>

theorem C5_history_after_emit:
  "getEventHistory 100 (emit P uuid now eventType d src newWebhookService) = []
   \<and> emitted (emit P uuid now eventType d src newWebhookService) \<noteq> []"
  by (simp add: getEventHistory_def slice_from_def emit_def processQueue_def loopHead_def
      newWebhookService_def Let_def)

lemma relevant_all:
  "list_all (\<lambda>sub. active sub \<and> etype event \<in> set (events sub)) (relevantSubscriptions this event)"
  by (simp add: relevantSubscriptions_def list_all_iff)

lemma bus_inv_start: "bus_inv (newWebhookService\<lparr>subscriptions := subs\<rparr>)"
  by (simp add: bus_inv_def newWebhookService_def)

lemma bus_inv_emit: "bus_inv s \<Longrightarrow> bus_inv (emit P uuid now eventType d src s)"
  by (auto simp: bus_inv_def emit_def processQueue_def loopHead_def Let_def
      relevantSubscriptions_def list_all_iff split: list.splits)

lemma bus_inv_settle: "bus_inv s \<Longrightarrow> bus_inv (settle P i s)"
  by (cases "drains s")
     (auto simp: bus_inv_def settle_def loopHead_def Let_def relevant_all split: list.splits)

lemma bus_inv_subscribe: "bus_inv s \<Longrightarrow> bus_inv (snd (subscribe uuid sub s))"
  by (simp add: bus_inv_def subscribe_def Let_def)

lemma bus_inv_unsubscribe: "bus_inv s \<Longrightarrow> bus_inv (snd (unsubscribe k s))"
  by (simp add: bus_inv_def unsubscribe_def Let_def)

lemma bus_inv_apply_op: "bus_inv s \<Longrightarrow> bus_inv (apply_op P s op)"
  by (cases op) (simp_all add: bus_inv_emit bus_inv_settle bus_inv_subscribe bus_inv_unsubscribe)

lemma bus_inv_run: "bus_inv s \<Longrightarrow> bus_inv (run P ops s)"
  unfolding run_def by (induction ops arbitrary: s) (simp_all add: bus_inv_apply_op)

lemma started_apply_op:
  "started (apply_op P s op) = started s
   \<or> (\<exists>event. started (apply_op P s op) = started s @ [(event, relevantSubscriptions s event)])"
  by (cases op)
     (auto simp: emit_def processQueue_def loopHead_def settle_def Let_def subscribe_def
        unsubscribe_def relevantSubscriptions_def split: list.splits)

text \<open>
  C6. After any run of calls (\<open>emit\<close>, the settling of the deliveries in flight,
  \<open>subscribe\<close>, \<open>unsubscribe\<close>) on a service that starts idle with any subscriptions: the
  events taken by the drain, then those still queued, are the events emitted, in that order;
  every round so far went only to subscriptions that are active and list the event's type;
  whatever call comes next either starts no round or starts one for exactly the active
  subscriptions listing that event's type; every round started but the one in flight has
  settled; at most one call of \<open>processQueue\<close> is suspended, \<open>isProcessing\<close> tells whether
  one is, and an \<open>emit\<close> made while one is suspended leaves the suspended calls as they are.
\<close>

theorem C6_drain_discipline:
  "let s = run P ops (newWebhookService\<lparr>subscriptions := subs\<rparr>) in
     map fst (started s) @ eventQueue s = emitted s
   \<and> list_all (\<lambda>r. list_all (\<lambda>sub. active sub \<and> etype (fst r) \<in> set (events sub)) (snd r)) (started s)
   \<and> (\<forall>op. started (apply_op P s op) = started s
          \<or> (\<exists>event. started (apply_op P s op) = started s @
                [(event, filter (\<lambda>sub. active sub \<and> etype event \<in> set (events sub))
                           (map snd (subscriptions s)))]))
   \<and> finished s @ drains s = started s
   \<and> length (drains s) \<le> 1
   \<and> isProcessing s = (drains s \<noteq> [])
   \<and> (drains s \<noteq> [] \<longrightarrow> drains (emit P uuid now eventType d src s) = drains s)"
proof -
  define s where "s = run P ops (newWebhookService\<lparr>subscriptions := subs\<rparr>)"
  have inv: "bus_inv s"
    unfolding s_def by (rule bus_inv_run [OF bus_inv_start])
  have step: "\<forall>op. started (apply_op P s op) = started s
          \<or> (\<exists>event. started (apply_op P s op) = started s @
                [(event, filter (\<lambda>sub. active sub \<and> etype event \<in> set (events sub))
                           (map snd (subscriptions s)))])"
    using started_apply_op [of P s] by (simp add: relevantSubscriptions_def)
  have busy: "drains s \<noteq> [] \<longrightarrow> drains (emit P uuid now eventType d src s) = drains s"
    using inv by (simp add: bus_inv_def emit_def Let_def)
  show ?thesis
    using inv step busy unfolding s_def [symmetric] Let_def bus_inv_def by blast
qed

lemma busyBus_fields:
  "drains busyBus = [(\<lparr>eid = ''e-1'', etype = ''test.failed'', timestamp = ''t1'', data = ''{}'',
                       source = ''sdlc-agent''\<rparr>, [activeSub])]"
  "started busyBus = drains busyBus"
  "finished busyBus = []"
  "eventQueue busyBus = [\<lparr>eid = ''e-2'', etype = ''build.started'', timestamp = ''t2'', data = ''{}'',
                          source = ''sdlc-agent''\<rparr>]"
  "emitted busyBus = map fst (drains busyBus) @ eventQueue busyBus"
  "isProcessing busyBus"
  by (simp_all add: busyBus_def busyOps_def busySubs_def run_def emit_def processQueue_def
      loopHead_def Let_def newWebhookService_def relevantSubscriptions_def activeSub_def
      inactiveSub_def)

theorem C6_drain_discipline_witness:
  "map fst (started busyBus) @ eventQueue busyBus = emitted busyBus
   \<and> map snd (started busyBus) = [[activeSub]]
   \<and> length (drains busyBus) = 1
   \<and> drains (emit demoPlatform ''e-3'' ''t3'' TestFailed ''{}'' None busyBus) = drains busyBus"
proof -
  note t = C6_drain_discipline [of demoPlatform busyOps busySubs "''e-3''" "''t3''" TestFailed
      "''{}''" None, unfolded Let_def busyBus_def [symmetric]]
  have busy: "drains busyBus \<noteq> []"
    by (simp add: busyBus_fields)
  have "map fst (started busyBus) @ eventQueue busyBus = emitted busyBus"
    using t by (rule conjunct1)
  moreover have "drains (emit demoPlatform ''e-3'' ''t3'' TestFailed ''{}'' None busyBus) = drains busyBus"
    using t busy by blast
  ultimately show ?thesis
    by (simp add: busyBus_fields)
qed







section \<open>Properties of the orchestrator\<close>

lemma handleDebugCode_fixes:
  assumes "findFileByPath (fileStructure plan) filePath = Some f"
    and "truthy (fcode f)" and "truthy (testError f)"
    and "\<And>code err w. truthy (fst (debugCode C code err w))"
  shows "fst (handleDebugCode C (Some plan) filePath s)"
  using assms by (simp add: handleDebugCode_def Let_def)

lemma handleRunTests_diverges:
  assumes found: "findFileByPath (fileStructure plan) filePath = Some f"
    and code: "truthy (fcode f)" and err: "truthy (testError f)"
    and fail: "\<And>code w. \<not> fst (fst (generateTestError C code w))"
    and repair: "\<And>code err w. truthy (fst (debugCode C code err w))"
  shows "handleRunTests C (Some plan) filePath s = None"
proof -
  have "\<not> (C' = C \<and> p' = Some plan \<and> path' = filePath)"
    if run: "handleRunTests C' p' path' s' = Some y" for C' p' path' s' y
  proof (rule handleRunTests.raw_induct
      [where P = "\<lambda>C' p' path' s' y. \<not> (C' = C \<and> p' = Some plan \<and> path' = filePath)", OF _ run],
      goal_cases)
    case (1 rec C' p' path' s' y)
    show ?case
    proof
      assume eq: "C' = C \<and> p' = Some plan \<and> path' = filePath"
      from 1(2) eq found code fail handleDebugCode_fixes [OF found code err repair]
      obtain s'' where "rec C (Some plan) filePath s'' = Some y"
        by (auto simp: Let_def split: if_splits)
      from 1(1) [OF this] show False
        by simp
    qed
  qed
  then have "handleRunTests C (Some plan) filePath s \<noteq> Some y" for y
    by blast
  then show ?thesis
    by (cases "handleRunTests C (Some plan) filePath s") blast+
qed

text \<open>
  C1 (as the code has it). \<open>handleRunTests\<close> has no iteration count. Take a file that has
  code and a test collaborator that always reports failure. If the debug collaborator
  returns a fix on every call and the file has a recorded test error, \<open>handleRunTests\<close>
  never returns; if the debug collaborator never returns a fix, it returns \<open>false\<close>.
\<close>

theorem C1_unbounded_self_healing:
  assumes "findFileByPath (fileStructure plan) filePath = Some f"
    and "truthy (fcode f)"
    and "\<And>code w. \<not> fst (fst (generateTestError C code w))"
  shows "((\<forall>code err w. truthy (fst (debugCode C code err w))) \<and> truthy (testError f)
            \<longrightarrow> handleRunTests C (Some plan) filePath s = None)
       \<and> ((\<forall>code err w. \<not> truthy (fst (debugCode C code err w)))
            \<longrightarrow> (\<exists>s'. handleRunTests C (Some plan) filePath s = Some (False, s')))"
proof (intro conjI impI)
  assume "(\<forall>code err w. truthy (fst (debugCode C code err w))) \<and> truthy (testError f)"
  with assms show "handleRunTests C (Some plan) filePath s = None"
    by (intro handleRunTests_diverges [where f = f]) simp_all
next
  assume "\<forall>code err w. \<not> truthy (fst (debugCode C code err w))"
  then have "\<not> fst (handleDebugCode C (Some plan) filePath s'')" for s''
    by (simp add: handleDebugCode_def Let_def split: option.splits)
  with assms show "\<exists>s'. handleRunTests C (Some plan) filePath s = Some (False, s')"
    by (subst handleRunTests.simps) (simp add: Let_def)
qed

lemma findA: "findFileByPath (fileStructure planA) ''src/a.ts'' = Some fileA"
  by (simp add: findFileByPath_def flattenFileTree_def planA_def fileA_def)

theorem C1_unbounded_self_healing_witness:
  "handleRunTests (scripted False (Some ''patched'')) (Some planA) ''src/a.ts'' idleRun = None
   \<and> map_option fst (handleRunTests (scripted False None) (Some planA) ''src/a.ts'' idleRun) = Some False"
proof -
  have a: "truthy (fcode fileA)" "truthy (testError fileA)"
    by (simp_all add: fileA_def truthy_def)
  have "handleRunTests (scripted False (Some ''patched'')) (Some planA) ''src/a.ts'' idleRun = None"
    using C1_unbounded_self_healing [OF findA a(1), of "scripted False (Some ''patched'')" idleRun] a(2)
    by (simp add: scripted_def truthy_def)
  moreover have "map_option fst (handleRunTests (scripted False None) (Some planA) ''src/a.ts'' idleRun) = Some False"
    using C1_unbounded_self_healing [OF findA a(1), of "scripted False None" idleRun]
    by (auto simp add: scripted_def truthy_def)
  ultimately show ?thesis
    by simp
qed

text \<open>
  C1 as claimed fails: with tests that always fail and a debugger that always answers with a
  fix, the call on \<open>src/a.ts\<close> does not return, so it returns no terminal failure.
\<close>

theorem C1_never_returns_counterexample:
  "handleRunTests (scripted False (Some ''patched'')) (Some planA) ''src/a.ts''
     \<lparr>isBuildingRef = True, dispatched = [], world = [], bus = newWebhookService\<rparr> = None"
  by (rule handleRunTests_diverges [OF findA])
     (simp_all add: fileA_def truthy_def scripted_def)

lemma attempted_dispatch:
  "attempted (dispatch a s) = attempted s @ (case generatingPath a of None \<Rightarrow> [] | Some p \<Rightarrow> [p])"
  by (simp add: attempted_def dispatch_def List.map_filter_def split: option.splits)

lemma attempted_updates [simp]:
  "attempted (s\<lparr>world := w\<rparr>) = attempted s"
  "attempted (s\<lparr>isBuildingRef := b\<rparr>) = attempted s"
  "attempted (addMessage role content s) = attempted s"
  "attempted (addTerminalEntry agent message st s) = attempted s"
  "attempted (updateAgentStatus agent ast s) = attempted s"
  by (simp_all add: attempted_def addMessage_def addTerminalEntry_def updateAgentStatus_def
      dispatch_def List.map_filter_def)

lemma attempted_handleDebugCode:
  "attempted (snd (handleDebugCode C p path s)) = attempted s"
  by (simp add: handleDebugCode_def Let_def attempted_dispatch split: option.splits)

lemma isBuildingRef_updates [simp]:
  "isBuildingRef (dispatch a s) = isBuildingRef s"
  "isBuildingRef (addMessage role content s) = isBuildingRef s"
  "isBuildingRef (addTerminalEntry agent message st s) = isBuildingRef s"
  "isBuildingRef (updateAgentStatus agent ast s) = isBuildingRef s"
  by (simp_all add: addMessage_def addTerminalEntry_def updateAgentStatus_def dispatch_def)

lemma attempted_generate:
  "attempted (generateBefore coderName path s) = attempted s @ [path]"
  "attempted (generateAfter coderName path code req s) = attempted s"
  "attempted (generateCatch coderName path err s) = attempted s"
  "attempted (generateFinally coderName s) = attempted s"
  by (simp_all add: generateBefore_def generateAfter_def generateCatch_def generateFinally_def
      Let_def attempted_dispatch split: option.splits)

lemma attempted_handleGenerateCode:
  "attempted (snd (handleGenerateCode C p path s)) =
     attempted s @ (if fst (handleGenerateCode C p path s) then [path] else [])
   \<or> attempted (snd (handleGenerateCode C p path s)) = attempted s @ [path]"
  by (simp add: handleGenerateCode_def Let_def attempted_generate
      split: option.splits sum.splits prod.splits)

lemma attempted_handleRunTests:
  assumes "handleRunTests C p path s = Some y"
  shows "attempted (snd y) = attempted s"
proof (rule handleRunTests.raw_induct
    [where P = "\<lambda>C p path s y. attempted (snd y) = attempted s", OF _ assms], goal_cases)
  case (1 rec C p path s y)
  show ?case
  proof (cases "\<exists>s'. rec C p path s' = Some y \<and> attempted s' = attempted s")
    case True
    then obtain s' where r: "rec C p path s' = Some y" and a: "attempted s' = attempted s"
      by blast
    from 1(1) [OF r] a show ?thesis
      by simp
  next
    case False
    with 1(2) show ?thesis
      by (auto simp: Let_def attempted_dispatch attempted_handleDebugCode
          split: option.splits if_splits)
  qed
qed

lemma attempted_buildLoop:
  assumes "buildLoop C p files s = Some s'"
  shows "\<exists>done rest. attempted s' = attempted s @ done \<and> map fpath files = done @ rest"
  using assms
proof (induction files arbitrary: s)
  case Nil
  then show ?case by simp
next
  case (Cons f0 files)
  define s1 where "s1 = addTerminalEntry Orchestrator
                 (''--- Starting work on '' @ fpath f0 @ '' ---'') Info s"
  define g where "g = handleGenerateCode C p (fpath f0) s1"
  define halt1 where "halt1 = addTerminalEntry Orchestrator
                      (''Build HALTED due to error in '' @ fpath f0 @ ''.'') Failure
                      (addMessage System
                         (''Build failed on '' @ fpath f0 @ ''. Halting process.'') (snd g))"
  define halt2 where "halt2 = (\<lambda>t :: bool \<times> 'a Run. addTerminalEntry Orchestrator
                                (''Build HALTED due to unresolvable test failure in ''
                                   @ fpath f0 @ ''.'') Failure
                                (addMessage System
                                   (''Tests failed for '' @ fpath f0
                                      @ '' and could not be self-healed. Halting build.'') (snd t)))"
  have step: "buildLoop C p (f0 # files) s =
      (if \<not> fst g then Some halt1
       else (case handleRunTests C p (fpath f0) (snd g) of
               None \<Rightarrow> None
             | Some t \<Rightarrow> if \<not> fst t then Some (halt2 t) else buildLoop C p files (snd t)))"
    unfolding g_def s1_def halt1_def halt2_def by (simp only: buildLoop.simps Let_def)
  have h1: "attempted halt1 = attempted (snd g)" and h2: "attempted (halt2 t) = attempted (snd t)" for t
    by (simp_all add: halt1_def halt2_def)
  have g: "attempted (snd g) = attempted s @ (if fst g then [fpath f0] else [])
           \<or> attempted (snd g) = attempted s @ [fpath f0]"
    using attempted_handleGenerateCode [of C p "fpath f0" s1] by (simp add: g_def s1_def)
  have step_fail: "buildLoop C p (f0 # files) s = Some halt1" if "\<not> fst g"
    using that unfolding step by simp
  have step_none: "buildLoop C p (f0 # files) s = None"
    if "fst g" "handleRunTests C p (fpath f0) (snd g) = None"
    using that unfolding step by simp
  have step_test: "buildLoop C p (f0 # files) s = Some (halt2 t)"
    if "fst g" "handleRunTests C p (fpath f0) (snd g) = Some t" "\<not> fst t" for t
    using that unfolding step by simp
  have step_next: "buildLoop C p (f0 # files) s = buildLoop C p files (snd t)"
    if "fst g" "handleRunTests C p (fpath f0) (snd g) = Some t" "fst t" for t
    using that unfolding step by simp
  show ?case
  proof (cases "fst g")
    case False
    from Cons.prems have "Some halt1 = Some s'"
      by (simp only: step_fail [OF False])
    then have eq: "attempted s' = attempted (snd g)"
      using h1 by blast
    from g False consider "attempted (snd g) = attempted s"
      | "attempted (snd g) = attempted s @ [fpath f0]"
      by auto
    then show ?thesis
    proof cases
      case 1
      with eq have "attempted s' = attempted s @ [] \<and> map fpath (f0 # files) = [] @ map fpath (f0 # files)"
        by simp
      then show ?thesis by blast
    next
      case 2
      with eq have "attempted s' = attempted s @ [fpath f0]
          \<and> map fpath (f0 # files) = [fpath f0] @ map fpath files"
        by simp
      then show ?thesis by blast
    qed
  next
    case True
    with g have ag: "attempted (snd g) = attempted s @ [fpath f0]"
      by auto
    have "handleRunTests C p (fpath f0) (snd g) \<noteq> None"
    proof
      assume n: "handleRunTests C p (fpath f0) (snd g) = None"
      from Cons.prems show False
        by (simp only: step_none [OF True n] option.distinct)
    qed
    then obtain t where t: "handleRunTests C p (fpath f0) (snd g) = Some t"
      by blast
    have at: "attempted (snd t) = attempted s @ [fpath f0]"
      using attempted_handleRunTests [OF t] ag by simp
    show ?thesis
    proof (cases "fst t")
      case False
      from Cons.prems have "Some (halt2 t) = Some s'"
        by (simp only: step_test [OF True t False])
      then have "attempted s' = attempted (snd t)"
        using h2 [of t] by blast
      with at have "attempted s' = attempted s @ [fpath f0]
          \<and> map fpath (f0 # files) = [fpath f0] @ map fpath files"
        by simp
      then show ?thesis by blast
    next
      case tt: True
      from Cons.prems have "buildLoop C p files (snd t) = Some s'"
        by (simp only: step_next [OF True t tt])
      from Cons.IH [OF this] obtain done' rest
        where "attempted s' = attempted (snd t) @ done'" "map fpath files = done' @ rest"
        by blast
      with at have "attempted s' = attempted s @ (fpath f0 # done')
          \<and> map fpath (f0 # files) = (fpath f0 # done') @ rest"
        by simp
      then show ?thesis by blast
    qed
  qed
qed

text \<open>
  C2 (as the code has it). The work list of \<open>handleBuildProject\<close> is computed once,
  before the loop, from the plan the handler holds. When the call returns, the files the
  generation collaborator was started on during it are a prefix of that list, in order: a
  file inserted during the run is handed to the tree (\<open>ADD_FILE\<close>) and is generated in the
  same call only if its path was in the list from the start.
\<close>

theorem C2_work_list_fixed:
  assumes "handleBuildProject C (Some plan) s = Some s'"
  shows "\<exists>done rest. attempted s' = attempted s @ done
           \<and> map fpath (filesToBuild plan) = done @ rest"
proof -
  from assms obtain s5 where
    loop: "buildLoop C (Some plan) (filesToBuild plan)
             (dispatch CLEAR_TERMINAL (addMessage System ''Starting full project build...''
                (dispatch (SET_BUILD_STATUS True) (s\<lparr>isBuildingRef := True\<rparr>)))) = Some s5"
    and s': "s' = dispatch (SET_BUILD_STATUS False)
                    ((addMessage System ''Full project build process finished.'' s5)
                       \<lparr>isBuildingRef := False\<rparr>)"
    by (auto simp: handleBuildProject_def Let_def split: option.splits)
  from attempted_buildLoop [OF loop] show ?thesis
    by (simp add: s' attempted_dispatch)
qed

lemma buildA:
  "map_option attempted (handleBuildProject (scripted True None) (Some planA) idleRun) = Some [''src/a.ts'']"
  "map_option requested (handleBuildProject (scripted True None) (Some planA) idleRun) = Some [''src/b.ts'']"
  "map_option world (handleBuildProject (scripted True None) (Some planA) idleRun) = Some [''src/a.ts'']"
  by code_simp+

theorem C2_work_list_fixed_witness:
  "\<exists>done rest. attempted (the (handleBuildProject (scripted True None) (Some planA) idleRun))
                  = attempted idleRun @ done
               \<and> map fpath (filesToBuild planA) = done @ rest"
proof -
  have "handleBuildProject (scripted True None) (Some planA) idleRun \<noteq> None"
    using buildA(1) by auto
  then have "handleBuildProject (scripted True None) (Some planA) idleRun
               = Some (the (handleBuildProject (scripted True None) (Some planA) idleRun))"
    by simp
  from C2_work_list_fixed [OF this] show ?thesis .
qed

text \<open>
  C2 as claimed fails: while \<open>src/a.ts\<close> is written the generator asks for \<open>src/b.ts\<close>;
  \<open>ADD_FILE\<close> is dispatched for it, and the build returns having called the generator for
  \<open>src/a.ts\<close> alone.
\<close>

theorem C2_inserted_file_counterexample:
  "map_option requested (handleBuildProject (scripted True None) (Some planA) idleRun) = Some [''src/b.ts'']
   \<and> map_option attempted (handleBuildProject (scripted True None) (Some planA) idleRun) = Some [''src/a.ts'']
   \<and> map_option world (handleBuildProject (scripted True None) (Some planA) idleRun) = Some [''src/a.ts'']"
  by (simp only: buildA)



text \<open>
  C4 (as the code has it). Whenever the loop of \<open>handleBuildProject\<close> reaches a file
  for which the generation collaborator fails, the loop ends there: the file's status is
  set to \<open>error\<close>, the project's error is set, the failure is written to the chat and to
  the terminal (with the step-by-step narration when the flag in \<open>isBuildingRef\<close> is
  clear), and nothing else happens; no later file is touched, the collaborators are not
  called again, and the webhook service is left as it was (no event is emitted).
\<close>

theorem C4_generation_failure_halts:
  assumes "findFileByPath (fileStructure plan) (fpath f0) = Some g"
    and "ftype g = File"
    and "generateCodeForFile C g plan (getRelevantKnowledge C (fpath f0) (world s))
           (flattenFileTree (fileStructure plan)) (world s) = (Inl err, w)"
  shows "buildLoop C (Some plan) (f0 # files) s =
           Some (s\<lparr>dispatched := dispatched s @
                   [ADD_TERMINAL_ENTRY Orchestrator (''--- Starting work on '' @ fpath f0 @ '' ---'') Info,
                    SET_ERROR None,
                    UPDATE_AGENT_STATUS (coderNameFor g) Coding]
                   @ (if isBuildingRef s then []
                      else [ADD_CHAT_MESSAGE System
                              (''(Consulting knowledge base for patterns related to `'' @ fpath f0 @ ''`...)''),
                            ADD_CHAT_MESSAGE Assistant (''On it! Generating code for `'' @ fpath f0 @ ''`...''),
                            SET_LOADING True (Some (''AI is writing code for '' @ fpath f0 @ ''...''))])
                   @ [ADD_TERMINAL_ENTRY (coderNameFor g) (''Generating code for '' @ fpath f0 @ ''...'') Info,
                      SET_FILE_STATUS (fpath f0) Generating,
                      SET_ERROR (Some (''Failed to generate code for '' @ fpath f0 @ ''.'')),
                      SET_FILE_STATUS (fpath f0) Error,
                      ADD_TERMINAL_ENTRY (coderNameFor g) (''Code generation failed for '' @ fpath f0 @ ''.'') Failure]
                   @ (if isBuildingRef s then []
                      else [ADD_CHAT_MESSAGE Assistant
                              (''Sorry, I hit a snag while generating code for `'' @ fpath f0 @ ''`: ''
                                 @ (case err of None \<Rightarrow> ''An unknown error occurred.'' | Some m \<Rightarrow> m))])
                   @ [UPDATE_AGENT_STATUS (coderNameFor g) Idle]
                   @ (if isBuildingRef s then [] else [SET_LOADING False None])
                   @ [ADD_CHAT_MESSAGE System (''Build failed on '' @ fpath f0 @ ''. Halting process.''),
                      ADD_TERMINAL_ENTRY Orchestrator (''Build HALTED due to error in '' @ fpath f0 @ ''.'') Failure],
                 world := w\<rparr>)"
proof -
  define s1 where "s1 = addTerminalEntry Orchestrator
                 (''--- Starting work on '' @ fpath f0 @ '' ---'') Info s"
  define c where "c = coderNameFor g"
  have b: "isBuildingRef s1 = isBuildingRef s" "world s1 = world s"
    by (simp_all add: s1_def addTerminalEntry_def dispatch_def)
  have w: "world (generateBefore c' (fpath f0) s1) = world s" for c'
    by (simp add: generateBefore_def Let_def b dispatch_def addTerminalEntry_def
        updateAgentStatus_def addMessage_def)
  have g: "handleGenerateCode C (Some plan) (fpath f0) s1 =
      (False, generateFinally c (generateCatch c (fpath f0) err
                ((generateBefore c (fpath f0) s1)\<lparr>world := w\<rparr>)))"
    using assms by (simp add: handleGenerateCode_def Let_def w c_def)
  have "buildLoop C (Some plan) (f0 # files) s =
      Some (addTerminalEntry Orchestrator
              (''Build HALTED due to error in '' @ fpath f0 @ ''.'') Failure
              (addMessage System (''Build failed on '' @ fpath f0 @ ''. Halting process.'')
                 (generateFinally c (generateCatch c (fpath f0) err
                    ((generateBefore c (fpath f0) s1)\<lparr>world := w\<rparr>)))))"
    by (simp only: buildLoop.simps Let_def s1_def [symmetric] g fst_conv snd_conv not_False_eq_True
        if_True)
  also have "\<dots> = Some (s\<lparr>dispatched := dispatched s @
                   [ADD_TERMINAL_ENTRY Orchestrator (''--- Starting work on '' @ fpath f0 @ '' ---'') Info,
                    SET_ERROR None,
                    UPDATE_AGENT_STATUS c Coding]
                   @ (if isBuildingRef s then []
                      else [ADD_CHAT_MESSAGE System
                              (''(Consulting knowledge base for patterns related to `'' @ fpath f0 @ ''`...)''),
                            ADD_CHAT_MESSAGE Assistant (''On it! Generating code for `'' @ fpath f0 @ ''`...''),
                            SET_LOADING True (Some (''AI is writing code for '' @ fpath f0 @ ''...''))])
                   @ [ADD_TERMINAL_ENTRY c (''Generating code for '' @ fpath f0 @ ''...'') Info,
                      SET_FILE_STATUS (fpath f0) Generating,
                      SET_ERROR (Some (''Failed to generate code for '' @ fpath f0 @ ''.'')),
                      SET_FILE_STATUS (fpath f0) Error,
                      ADD_TERMINAL_ENTRY c (''Code generation failed for '' @ fpath f0 @ ''.'') Failure]
                   @ (if isBuildingRef s then []
                      else [ADD_CHAT_MESSAGE Assistant
                              (''Sorry, I hit a snag while generating code for `'' @ fpath f0 @ ''`: ''
                                 @ (case err of None \<Rightarrow> ''An unknown error occurred.'' | Some m \<Rightarrow> m))])
                   @ [UPDATE_AGENT_STATUS c Idle]
                   @ (if isBuildingRef s then [] else [SET_LOADING False None])
                   @ [ADD_CHAT_MESSAGE System (''Build failed on '' @ fpath f0 @ ''. Halting process.''),
                      ADD_TERMINAL_ENTRY Orchestrator (''Build HALTED due to error in '' @ fpath f0 @ ''.'') Failure],
                 world := w\<rparr>)"
    by (cases "isBuildingRef s")
       (simp_all add: s1_def generateBefore_def generateCatch_def generateFinally_def Let_def
          dispatch_def addTerminalEntry_def addMessage_def updateAgentStatus_def)
  finally show ?thesis
    unfolding c_def .
qed

lemma findBad: "findFileByPath (fileStructure planBad) (fpath fileBad) = Some fileBad"
  by (simp add: findFileByPath_def flattenFileTree_def planBad_def fileBad_def fileC_def)

theorem C4_generation_failure_halts_witness:
  "map_option attempted (buildLoop (scripted True None) (Some planBad) [fileBad, fileC] buildingRun)
     = Some [''bad.ts'']
   \<and> map_option world (buildLoop (scripted True None) (Some planBad) [fileBad, fileC] buildingRun)
     = Some [''bad.ts'']
   \<and> map_option bus (buildLoop (scripted True None) (Some planBad) [fileBad, fileC] buildingRun)
     = Some newWebhookService"
proof -
  have t: "ftype fileBad = File"
    by (simp add: fileBad_def)
  have g: "generateCodeForFile (scripted True None) fileBad planBad
             (getRelevantKnowledge (scripted True None) (fpath fileBad) (world buildingRun))
             (flattenFileTree (fileStructure planBad)) (world buildingRun)
           = (Inl (Some ''quota exceeded''), [''bad.ts''])"
    by (simp add: scripted_def fileBad_def buildingRun_def)
  show ?thesis
    unfolding C4_generation_failure_halts [OF findBad t g]
    by (simp add: attempted_def List.map_filter_def buildingRun_def fileBad_def)
qed

text \<open>
  C4 as claimed fails: the build of a plan whose first file cannot be generated halts on
  that file and returns without any event having been emitted to the webhook service.
\<close>

theorem C4_no_webhook_event_counterexample:
  "map_option webhookEvents (handleBuildProject (scripted True None) (Some planBad) idleRun) = Some []
   \<and> map_option attempted (handleBuildProject (scripted True None) (Some planBad) idleRun) = Some [''bad.ts'']"
  by code_simp

end
